theory Spec2Isabelle
  imports Main
begin

section \<open>Python values used by the assessment record\<close>

text \<open>
  A Python \<open>dict\<close> keeps its keys in insertion order, so a dictionary is an association
  list whose keys are pairwise different. \<open>dict_set\<close> is \<open>d[k] = v\<close>: it overwrites the
  entry in place when the key is present and appends a new entry otherwise.
  \<open>dict_update\<close> is \<open>d.update(other)\<close>: the entries of \<open>other\<close> are stored one after the
  other, in their order.
\<close>

type_synonym ('k, 'v) dict = "('k \<times> 'v) list"

primrec dict_set :: "'k \<Rightarrow> 'v \<Rightarrow> ('k, 'v) dict \<Rightarrow> ('k, 'v) dict" where
  "dict_set k v [] = [(k, v)]"
| "dict_set k v (p # ps) = (if fst p = k then (k, v) # ps else p # dict_set k v ps)"

primrec dict_update :: "('k, 'v) dict \<Rightarrow> ('k, 'v) dict \<Rightarrow> ('k, 'v) dict" where
  "dict_update d [] = d"
| "dict_update d (p # ps) = dict_update (dict_set (fst p) (snd p) d) ps"

definition dict_keys :: "('k, 'v) dict \<Rightarrow> 'k list" where
  "dict_keys d = map fst d"

definition dict_values :: "('k, 'v) dict \<Rightarrow> 'v list" where
  "dict_values d = map snd d"

text \<open>
  A keyword parameter with a default value: \<open>Omitted\<close> when the caller leaves it out
  (the body then sees the default of the \<open>def\<close> line), \<open>Given v\<close> when the caller passes
  \<open>v\<close>. A parameter that may be passed \<open>None\<close> has an option type under \<open>Given\<close>.
\<close>

datatype 'a arg = Omitted | Given 'a

primrec arg_or :: "'a \<Rightarrow> 'a arg \<Rightarrow> 'a" where
  "arg_or d Omitted = d"
| "arg_or d (Given v) = v"

text \<open>
  The values a caller can pass as a score. \<open>isinstance(score, int)\<close> holds of an \<open>int\<close>
  and of a \<open>bool\<close> (a subclass of \<open>int\<close>, with \<open>True == 1\<close> and \<open>False == 0\<close>) and of
  nothing else here; \<open>int_value\<close> is the number such a value counts as. A value of
  any other type is refused by the \<open>isinstance\<close> test alone, before it is compared; its
  \<open>int_value\<close> is never read.
\<close>

datatype pyval = PInt int | PBool bool | PStr string | PNone

fun isinstance_int :: "pyval \<Rightarrow> bool" where
  "isinstance_int (PInt i) = True"
| "isinstance_int (PBool b) = True"
| "isinstance_int (PStr s) = False"
| "isinstance_int PNone = False"

fun int_value :: "pyval \<Rightarrow> int" where
  "int_value (PInt i) = i"
| "int_value (PBool b) = (if b then 1 else 0)"
| "int_value (PStr s) = 0"
| "int_value PNone = 0"

text \<open>
  The exceptions of \<open>aia_core.py\<close>. Every \<open>raise\<close> of the class is a \<open>ValueError\<close> with a
  message, for a bad argument as for an identifier that is not found; \<open>KeyError\<close> is what
  \<open>item['id']\<close> raises on a dictionary without that key, and \<open>TypeError\<close> is what a
  call raises that gives an argument both by position and by keyword.
\<close>

datatype error = ValueError string | KeyError string | TypeError

section \<open>Constants of \<open>aia_core.py\<close>\<close>

definition AIA_VERSION :: string where
  "AIA_VERSION = ''1.1''"

definition DIMENSIONS :: "string list" where
  "DIMENSIONS =
    [''Human Impact'',
     ''Contestability and Redress'',
     ''Explainability and Interpretability'',
     ''Bias and Fairness'',
     ''Privacy Risk'',
     ''Data Representativeness'',
     ''Autonomy and Oversight'',
     ''Accountability and Auditability'',
     ''Security and Resilience'',
     ''Monitoring and Drift'',
     ''Ethical Considerations'',
     ''Legal Compliance'',
     ''Robustness and Reliability'']"

record risk =
  category :: string
  action :: string

definition LOW_ACTION :: string where
  "LOW_ACTION = ''Standard deployment procedures. Routine monitoring. Document AIA. Approval typically by Project/System Owner.''"

definition MEDIUM_ACTION :: string where
  "MEDIUM_ACTION = ''Requires documented Mitigation Plan (Section 9). Enhanced monitoring procedures. Requires review/endorsement by [Specify Role, e.g., AI Governance Committee or relevant Senior Manager]. Approval potentially involves Accountable AI Official oversight.''"

definition HIGH_ACTION :: string where
  "HIGH_ACTION = ''Requires comprehensive Mitigation Plan with clear timelines and owners. Strict oversight and monitoring. Requires formal approval from [Specify Senior Role, e.g., Designated Accountable AI Official, SES Band 1/2]. Limitations on use may be needed.''"

definition SEVERE_ACTION :: string where
  "SEVERE_ACTION = ''Requires robust Mitigation Plan addressing all significant risks. Requires highest level approval [Specify Executive Role, e.g., Agency Head / Deputy Secretary / Designated Senior Accountable AI Official]. Deployment may be contingent on significant redesign, specific limitations, independent review, or may be prohibited if risks cannot be adequately mitigated.''"

text \<open>
  \<open>RISK_CATEGORIES\<close>: each row is the inclusive range, the category and the action.
\<close>

definition RISK_CATEGORIES :: "((int \<times> int) \<times> string \<times> string) list" where
  "RISK_CATEGORIES =
    [((0, 10), ''Low'', LOW_ACTION),
     ((11, 25), ''Medium'', MEDIUM_ACTION),
     ((26, 40), ''High'', HIGH_ACTION),
     ((41, 65), ''Severe'', SEVERE_ACTION)]"

section \<open>Scoring and classification\<close>

text \<open>
  The loop of \<open>_determine_risk_category\<close>: the first row whose range holds the score
  gives the category; with no such row the fallback after the loop is returned.
\<close>

fun classify_rows :: "((int \<times> int) \<times> string \<times> string) list \<Rightarrow> int \<Rightarrow> risk" where
  "classify_rows [] s =
     \<lparr>category = ''Undefined'', action = ''Score out of expected range.''\<rparr>"
| "classify_rows (((min_score, max_score), c, a) # rest) s =
     (if min_score \<le> s \<and> s \<le> max_score then \<lparr>category = c, action = a\<rparr>
      else classify_rows rest s)"

definition classifyRisk :: "int \<Rightarrow> risk" where
  "classifyRisk t = classify_rows RISK_CATEGORIES t"

text \<open>The categories of the rows of a table whose range holds the score.\<close>

definition matching_rows :: "((int \<times> int) \<times> string \<times> string) list \<Rightarrow> int \<Rightarrow> string list" where
  "matching_rows rows t = map (\<lambda>r. fst (snd r)) (filter (\<lambda>r. fst (fst r) \<le> t \<and> t \<le> snd (fst r)) rows)"

section \<open>The assessment record\<close>

text \<open>
  The attributes of \<open>AlgorithmicImpactAssessment\<close>, in the order \<open>__init__\<close> sets them.
  The inner dictionary of a dimension has the two keys \<open>score\<close> and \<open>justification\<close>, and
  \<open>approvals\<close> has the three slots \<open>assessor\<close>, \<open>reviewer\<close> and \<open>approver\<close>; both are only
  read and written at these literal keys, so they are records. A mitigation item is a
  dictionary, since \<open>update_mitigation_item\<close> stores whatever keys it is given.
\<close>

record dimension_entry =
  score :: int
  justification :: string

type_synonym item = "(string, string) dict"

record approval_slots =
  assessor :: "(string, string) dict"
  reviewer :: "(string, string) dict"
  approver :: "(string, string) dict"

record aia =
  aia_version :: string
  assessment_date :: string
  assessed_by :: "string list"
  referenced_frameworks :: string
  system_name :: string
  agency_name :: string
  system_purpose :: string
  technical_specs :: "(string, string) dict"
  data_details :: "(string, string) dict"
  deployment_context :: "(string, string) dict"
  procurement :: "(string, string) dict"
  related_assessments :: "(string, string) dict"
  dimensions :: "(string, dimension_entry) dict"
  total_score :: int
  risk_category :: risk
  mitigation_plan :: "item list"
  approvals :: approval_slots
  ai_inventory_ref :: string
  transparency_statement_link :: string
  monitoring_plan_ref :: string
  review_frequency :: string
  next_review_date :: string
  system_id :: "int option"
  aia_status :: string
  related_assessment_statuses :: "(string, string) dict"
  creation_date :: string
  last_modified_date :: string

text \<open>
  \<open>__init__\<close>. The three readings of the clock are parameters: \<open>today\<close> is
  \<open>datetime.date.today().isoformat()\<close>, and \<open>now_created\<close> and \<open>now_modified\<close> are the two
  calls of \<open>datetime.datetime.now().isoformat()\<close>.
\<close>

definition init :: "string arg \<Rightarrow> string arg \<Rightarrow> string \<Rightarrow> string \<Rightarrow> string \<Rightarrow> aia" where
  "init system_name_arg agency_name_arg today now_created now_modified =
    \<lparr>aia_version = AIA_VERSION,
     assessment_date = today,
     assessed_by = [],
     referenced_frameworks = '''',
     system_name = arg_or ''[System Name]'' system_name_arg,
     agency_name = arg_or ''[Agency Name]'' agency_name_arg,
     system_purpose = '''',
     technical_specs =
       [(''model_type'', ''''), (''algorithms'', ''''), (''language_libs'', ''''),
        (''hardware_infra'', '''')],
     data_details =
       [(''sources'', ''''), (''volume_velocity'', ''''), (''types'', ''''),
        (''retention_policy'', '''')],
     deployment_context =
       [(''operational_env'', ''''), (''target_users_affected'', ''''),
        (''decision_authority'', '''')],
     procurement = [(''method'', ''''), (''ethical_reqs'', '''')],
     related_assessments =
       [(''pia_status_desc'', ''''), (''pia_ref'', ''''), (''other_assessments'', '''')],
     dimensions = map (\<lambda>dim. (dim, \<lparr>score = 0, justification = ''''\<rparr>)) DIMENSIONS,
     total_score = 0,
     risk_category = \<lparr>category = ''Low'', action = snd (snd (RISK_CATEGORIES ! 0))\<rparr>,
     mitigation_plan = [],
     approvals =
       \<lparr>assessor = [(''name'', ''''), (''role'', ''''), (''date'', '''')],
        reviewer = [(''name'', ''''), (''role'', ''''), (''comments'', ''''), (''date'', '''')],
        approver =
          [(''name'', ''''), (''role'', ''''), (''decision'', ''''), (''conditions'', ''''),
           (''date'', '''')]\<rparr>,
     ai_inventory_ref = '''',
     transparency_statement_link = '''',
     monitoring_plan_ref = '''',
     review_frequency = '''',
     next_review_date = '''',
     system_id = None,
     aia_status = ''Draft'',
     related_assessment_statuses =
       [(''PIA'', ''Not Started''), (''Security Assessment'', ''Not Started''),
        (''Human Rights Assessment'', ''Not Started'')],
     creation_date = now_created,
     last_modified_date = now_modified\<rparr>"

subsection \<open>Calculation methods\<close>

definition calculate_total_score :: "aia \<Rightarrow> aia" where
  "calculate_total_score r = r\<lparr>total_score := sum_list (map score (dict_values (dimensions r)))\<rparr>"

definition determine_risk_category :: "aia \<Rightarrow> aia" where
  "determine_risk_category r = r\<lparr>risk_category := classifyRisk (total_score r)\<rparr>"

definition update_risk_assessment :: "aia \<Rightarrow> aia" where
  "update_risk_assessment r = determine_risk_category (calculate_total_score r)"

subsection \<open>Methods for setting data\<close>

text \<open>
  Every method takes the reading of the clock it stores in \<open>last_modified_date\<close> as the
  parameter \<open>now\<close>, and the record as its last parameter. A method that can raise returns
  the exception or the returned value, together with the record as the method leaves it,
  so that what a failed call has changed is visible. The methods without a \<open>raise\<close>
  return the record alone.

  \<open>set_metadata\<close>: \<open>assessed_by\<close> is a list, or anything else, which is taken as one
  assessor. \<open>if assessment_date:\<close> holds of a string that is not empty.
\<close>

datatype assessors = AssessorList "string list" | AssessorName string

definition set_metadata ::
  "assessors \<Rightarrow> string arg \<Rightarrow> string option arg \<Rightarrow> string \<Rightarrow> aia \<Rightarrow> aia" where
  "set_metadata assessed_by_arg referenced_frameworks_arg assessment_date_arg now r =
    (let frameworks = arg_or '''' referenced_frameworks_arg;
         date = arg_or None assessment_date_arg;
         r1 = r\<lparr>assessed_by :=
                (case assessed_by_arg of AssessorList l \<Rightarrow> l | AssessorName s \<Rightarrow> [s])\<rparr>;
         r2 = r1\<lparr>referenced_frameworks := frameworks\<rparr>;
         r3 = (case date of
                 None \<Rightarrow> r2
               | Some d \<Rightarrow> if d \<noteq> '''' then r2\<lparr>assessment_date := d\<rparr> else r2)
     in r3\<lparr>last_modified_date := now\<rparr>)"

text \<open>
  \<open>set_system_details\<close>: \<open>if system_name:\<close> and \<open>purpose or self.system_purpose\<close> test
  that the string is not empty. Of \<open>related_assessments\<close> only the keys \<open>pia_ref\<close> and
  \<open>other_assessments\<close> are read. An attribute that is changed in place, as by
  \<open>self.technical_specs.update(tech_specs)\<close>, is written with the update function of its
  field, which applies a function to the attribute's value.
\<close>

definition set_system_details ::
  "string arg \<Rightarrow> string arg \<Rightarrow> string arg \<Rightarrow> (string, string) dict arg \<Rightarrow>
   (string, string) dict arg \<Rightarrow> (string, string) dict arg \<Rightarrow> (string, string) dict arg \<Rightarrow>
   (string, string) dict arg \<Rightarrow> string \<Rightarrow> aia \<Rightarrow> aia" where
  "set_system_details system_name_arg agency_name_arg purpose_arg tech_specs_arg
      data_details_arg deployment_context_arg procurement_arg related_assessments_arg now r =
    (let name = arg_or '''' system_name_arg;
         agency = arg_or '''' agency_name_arg;
         purpose = arg_or '''' purpose_arg;
         related = arg_or [] related_assessments_arg;
         r1 = (if name \<noteq> '''' then r\<lparr>system_name := name\<rparr> else r);
         r2 = (if agency \<noteq> '''' then r1\<lparr>agency_name := agency\<rparr> else r1);
         r3 = system_purpose_update (\<lambda>old. if purpose \<noteq> '''' then purpose else old) r2;
         r4 = technical_specs_update (\<lambda>specs. dict_update specs (arg_or [] tech_specs_arg)) r3;
         r5 = data_details_update (\<lambda>details. dict_update details (arg_or [] data_details_arg)) r4;
         r6 = deployment_context_update
                (\<lambda>ctx. dict_update ctx (arg_or [] deployment_context_arg)) r5;
         r7 = procurement_update (\<lambda>proc. dict_update proc (arg_or [] procurement_arg)) r6;
         r8 = (case map_of related ''pia_ref'' of
                 None \<Rightarrow> r7
               | Some v \<Rightarrow> related_assessments_update (dict_set ''pia_ref'' v) r7);
         r9 = (case map_of related ''other_assessments'' of
                 None \<Rightarrow> r8
               | Some v \<Rightarrow> related_assessments_update (dict_set ''other_assessments'' v) r8)
     in r9\<lparr>last_modified_date := now\<rparr>)"

text \<open>
  \<open>set_dimension_score\<close>: the name is looked up among the keys of \<open>self.dimensions\<close>.
  The two assignments to the inner dictionary replace both of its entries. A \<open>bool\<close>
  passes \<open>isinstance(score, int)\<close>; it is stored as the number it is equal to.
\<close>

definition set_dimension_score ::
  "string \<Rightarrow> pyval \<Rightarrow> string arg \<Rightarrow> string \<Rightarrow> aia \<Rightarrow> (error + unit) \<times> aia" where
  "set_dimension_score dimension_name score_val justification_arg now r =
    (if dimension_name \<notin> set (dict_keys (dimensions r)) then
       (Inl (ValueError (''Invalid dimension name: '' @ dimension_name)), r)
     else if \<not> isinstance_int score_val \<or> \<not> (0 \<le> int_value score_val \<and> int_value score_val \<le> 5) then
       (Inl (ValueError (''Score for '' @ dimension_name @ '' must be an integer between 0 and 5.'')), r)
     else
       (let r1 = r\<lparr>dimensions :=
                   dict_set dimension_name
                     \<lparr>score = int_value score_val, justification = arg_or '''' justification_arg\<rparr>
                     (dimensions r)\<rparr>;
            r2 = update_risk_assessment r1
        in (Inr (), r2\<lparr>last_modified_date := now\<rparr>)))"

subsection \<open>Methods for the mitigation plan\<close>

text \<open>
  \<open>add_mitigation_item\<close>: \<open>uuid\<close> is the string \<open>str(uuid.uuid4())\<close> draws.
\<close>

definition add_mitigation_item ::
  "string \<Rightarrow> string \<Rightarrow> string \<Rightarrow> string \<Rightarrow> string \<Rightarrow> string arg \<Rightarrow> string \<Rightarrow> string \<Rightarrow> aia \<Rightarrow>
   string \<times> aia" where
  "add_mitigation_item dimension risk_score_desc action_text responsible target_date status_arg
      uuid now r =
    (let new_item =
           [(''id'', uuid),
            (''dimension'', dimension),
            (''risk_score_desc'', risk_score_desc),
            (''action'', action_text),
            (''responsible'', responsible),
            (''target_date'', target_date),
            (''status'', arg_or ''Planned'' status_arg)];
         r1 = r\<lparr>mitigation_plan := mitigation_plan r @ [new_item]\<rparr>
     in (the (map_of new_item ''id''), r1\<lparr>last_modified_date := now\<rparr>))"

text \<open>
  The loop of \<open>update_mitigation_item\<close>: the first item whose \<open>id\<close> is \<open>item_id\<close> is
  updated and the loop stops. The result is \<open>found\<close> and the plan.
\<close>

fun update_first :: "string \<Rightarrow> (string, string) dict \<Rightarrow> item list \<Rightarrow> error + (bool \<times> item list)" where
  "update_first item_id updates [] = Inr (False, [])"
| "update_first item_id updates (it # rest) =
     (case map_of it ''id'' of
        None \<Rightarrow> Inl (KeyError ''id'')
      | Some i \<Rightarrow>
          if i = item_id then Inr (True, dict_update it updates # rest)
          else (case update_first item_id updates rest of
                  Inl e \<Rightarrow> Inl e
                | Inr (found, rest') \<Rightarrow> Inr (found, it # rest')))"

text \<open>
  \<open>update_mitigation_item(self, item_id, **updates)\<close>: \<open>updates\<close> holds the keyword
  arguments of the call. The record and the identifier are bound to \<open>self\<close> and
  \<open>item_id\<close> by position, so a keyword of either name is refused when the call is bound
  (\<open>TypeError\<close>, multiple values for the argument) and the body does not run.
\<close>

definition update_mitigation_item ::
  "string \<Rightarrow> (string, string) dict \<Rightarrow> string \<Rightarrow> aia \<Rightarrow> (error + bool) \<times> aia" where
  "update_mitigation_item item_id updates now r =
    (if ''self'' \<in> set (dict_keys updates) \<or> ''item_id'' \<in> set (dict_keys updates) then
       (Inl TypeError, r)
     else
       (case update_first item_id updates (mitigation_plan r) of
          Inl e \<Rightarrow> (Inl e, r)
        | Inr (found, plan) \<Rightarrow>
            (let r1 = r\<lparr>mitigation_plan := plan\<rparr> in
             if \<not> found then
               (Inl (ValueError (''Mitigation item with ID '' @ item_id @ '' not found.'')), r1)
             else (Inr True, r1\<lparr>last_modified_date := now\<rparr>))))"

text \<open>
  The list comprehension of \<open>remove_mitigation_item\<close>: the items whose \<open>id\<close> is not
  \<open>item_id\<close>, in their order. The new list is stored before the lengths are compared.
\<close>

fun keep_others :: "string \<Rightarrow> item list \<Rightarrow> error + item list" where
  "keep_others item_id [] = Inr []"
| "keep_others item_id (it # rest) =
     (case map_of it ''id'' of
        None \<Rightarrow> Inl (KeyError ''id'')
      | Some i \<Rightarrow>
          (case keep_others item_id rest of
             Inl e \<Rightarrow> Inl e
           | Inr rest' \<Rightarrow> Inr (if i \<noteq> item_id then it # rest' else rest')))"

definition remove_mitigation_item :: "string \<Rightarrow> string \<Rightarrow> aia \<Rightarrow> (error + bool) \<times> aia" where
  "remove_mitigation_item item_id now r =
    (let initial_len = length (mitigation_plan r) in
     case keep_others item_id (mitigation_plan r) of
       Inl e \<Rightarrow> (Inl e, r)
     | Inr plan \<Rightarrow>
         (let r1 = r\<lparr>mitigation_plan := plan\<rparr> in
          if length (mitigation_plan r1) = initial_len then
            (Inl (ValueError (''Mitigation item with ID '' @ item_id @ '' not found.'')), r1)
          else (Inr True, r1\<lparr>last_modified_date := now\<rparr>)))"

subsection \<open>Methods for approval and monitoring\<close>

text \<open>
  \<open>set_approval\<close>: \<open>if assessor:\<close> holds of a dictionary that is not empty.
\<close>

definition set_approval ::
  "(string, string) dict arg \<Rightarrow> (string, string) dict arg \<Rightarrow> (string, string) dict arg \<Rightarrow>
   string \<Rightarrow> aia \<Rightarrow> aia" where
  "set_approval assessor_arg reviewer_arg approver_arg now r =
    (let a = arg_or [] assessor_arg;
         rv = arg_or [] reviewer_arg;
         ap = arg_or [] approver_arg;
         s0 = approvals r;
         s1 = (if a \<noteq> [] then s0\<lparr>assessor := dict_update (assessor s0) a\<rparr> else s0);
         s2 = (if rv \<noteq> [] then s1\<lparr>reviewer := dict_update (reviewer s1) rv\<rparr> else s1);
         s3 = (if ap \<noteq> [] then s2\<lparr>approver := dict_update (approver s2) ap\<rparr> else s2)
     in r\<lparr>approvals := s3, last_modified_date := now\<rparr>)"

text \<open>
  \<open>set_links\<close> and \<open>set_monitoring\<close>: the default of every parameter is the empty
  string, and a parameter is stored unless it \<open>is None\<close>.
\<close>

definition set_links :: "string option arg \<Rightarrow> string option arg \<Rightarrow> string \<Rightarrow> aia \<Rightarrow> aia" where
  "set_links inventory_ref_arg transparency_link_arg now r =
    (let inventory_ref = arg_or (Some '''') inventory_ref_arg;
         transparency_link = arg_or (Some '''') transparency_link_arg;
         r1 = (case inventory_ref of None \<Rightarrow> r | Some v \<Rightarrow> r\<lparr>ai_inventory_ref := v\<rparr>);
         r2 = (case transparency_link of
                 None \<Rightarrow> r1
               | Some v \<Rightarrow> r1\<lparr>transparency_statement_link := v\<rparr>)
     in r2\<lparr>last_modified_date := now\<rparr>)"

definition set_monitoring ::
  "string option arg \<Rightarrow> string option arg \<Rightarrow> string option arg \<Rightarrow> string \<Rightarrow> aia \<Rightarrow> aia" where
  "set_monitoring plan_ref_arg frequency_arg next_date_arg now r =
    (let plan_ref = arg_or (Some '''') plan_ref_arg;
         frequency = arg_or (Some '''') frequency_arg;
         next_date = arg_or (Some '''') next_date_arg;
         r1 = (case plan_ref of None \<Rightarrow> r | Some v \<Rightarrow> r\<lparr>monitoring_plan_ref := v\<rparr>);
         r2 = (case frequency of None \<Rightarrow> r1 | Some v \<Rightarrow> r1\<lparr>review_frequency := v\<rparr>);
         r3 = (case next_date of None \<Rightarrow> r2 | Some v \<Rightarrow> r2\<lparr>next_review_date := v\<rparr>)
     in r3\<lparr>last_modified_date := now\<rparr>)"

subsection \<open>Methods for managing statuses\<close>

definition AIA_STATUSES :: "string list" where
  "AIA_STATUSES = [''Draft'', ''In Progress'', ''Review'', ''Approved'', ''Archived'']"

definition RELATED_STATUSES :: "string list" where
  "RELATED_STATUSES = [''Not Started'', ''In Progress'', ''Completed'', ''N/A'']"

definition set_aia_status :: "string \<Rightarrow> string \<Rightarrow> aia \<Rightarrow> (error + unit) \<times> aia" where
  "set_aia_status status now r =
    (let allowed_statuses = AIA_STATUSES in
     if status \<notin> set allowed_statuses then
       (Inl (ValueError
          ''Invalid AIA status. Must be one of: ['Draft', 'In Progress', 'Review', 'Approved', 'Archived']''), r)
     else (Inr (), r\<lparr>aia_status := status, last_modified_date := now\<rparr>))"

text \<open>
  \<open>set_related_assessment_status\<close>: a name that is not a key of
  \<open>related_assessment_statuses\<close> only prints a warning (the output is not part of the
  record); the status is then checked and stored under the name, known or not.
\<close>

definition set_related_assessment_status ::
  "string \<Rightarrow> string \<Rightarrow> string \<Rightarrow> aia \<Rightarrow> (error + unit) \<times> aia" where
  "set_related_assessment_status assessment_name status now r =
    (let allowed_statuses = RELATED_STATUSES in
     if status \<notin> set allowed_statuses then
       (Inl (ValueError
          (''Invalid status for '' @ assessment_name @
           ''. Must be one of: ['Not Started', 'In Progress', 'Completed', 'N/A']'')), r)
     else
       (Inr (),
        r\<lparr>related_assessment_statuses :=
              dict_set assessment_name status (related_assessment_statuses r),
          last_modified_date := now\<rparr>))"

subsection \<open>Calls and reachable records\<close>

text \<open>
  The eleven mutating methods as one type of calls, each with its arguments (the
  identifier drawn by \<open>add_mitigation_item\<close> among them). \<open>run\<close> performs a call at a
  reading of the clock and gives the exception, if one was raised, and the record after
  the call.
\<close>

datatype call =
    SetMetadata assessors "string arg" "string option arg"
  | SetSystemDetails "string arg" "string arg" "string arg" "(string, string) dict arg"
      "(string, string) dict arg" "(string, string) dict arg" "(string, string) dict arg"
      "(string, string) dict arg"
  | SetDimensionScore string pyval "string arg"
  | AddMitigationItem string string string string string "string arg" string
  | UpdateMitigationItem string "(string, string) dict"
  | RemoveMitigationItem string
  | SetApproval "(string, string) dict arg" "(string, string) dict arg" "(string, string) dict arg"
  | SetLinks "string option arg" "string option arg"
  | SetMonitoring "string option arg" "string option arg" "string option arg"
  | SetAiaStatus string
  | SetRelatedAssessmentStatus string string

definition raised :: "(error + 'a) \<times> aia \<Rightarrow> error option \<times> aia" where
  "raised out = (case fst out of Inl e \<Rightarrow> Some e | Inr v \<Rightarrow> None, snd out)"

fun run :: "call \<Rightarrow> string \<Rightarrow> aia \<Rightarrow> error option \<times> aia" where
  "run (SetMetadata a f d) now r = (None, set_metadata a f d now r)"
| "run (SetSystemDetails n a p t d c pr ra) now r = (None, set_system_details n a p t d c pr ra now r)"
| "run (SetDimensionScore n s j) now r = raised (set_dimension_score n s j now r)"
| "run (AddMitigationItem d rs a resp t st uuid) now r =
     (None, snd (add_mitigation_item d rs a resp t st uuid now r))"
| "run (UpdateMitigationItem i u) now r = raised (update_mitigation_item i u now r)"
| "run (RemoveMitigationItem i) now r = raised (remove_mitigation_item i now r)"
| "run (SetApproval a rv ap) now r = (None, set_approval a rv ap now r)"
| "run (SetLinks i t) now r = (None, set_links i t now r)"
| "run (SetMonitoring p f n) now r = (None, set_monitoring p f n now r)"
| "run (SetAiaStatus s) now r = raised (set_aia_status s now r)"
| "run (SetRelatedAssessmentStatus n s) now r = raised (set_related_assessment_status n s now r)"

fun is_set_dimension_score :: "call \<Rightarrow> bool" where
  "is_set_dimension_score (SetDimensionScore n s j) = True"
| "is_set_dimension_score c = False"

text \<open>
  The records that the methods of the class produce: the constructor's, and the record
  after any call, failed or not, and after \<open>_update_risk_assessment\<close> (which
  \<open>generate_report\<close> and the callers that save or show the record invoke). A caller
  that assigns to an attribute directly, or that fills the attributes from stored data,
  is not a method of the class and is not a step of this relation.
\<close>

inductive reachable :: "aia \<Rightarrow> bool" where
  reach_init: "reachable (init system_name_arg agency_name_arg today now_created now_modified)"
| reach_run: "reachable r \<Longrightarrow> reachable (snd (run c now r))"
| reach_update_risk: "reachable r \<Longrightarrow> reachable (update_risk_assessment r)"

subsection \<open>The invariant of the record\<close>

text \<open>
  What the methods keep true of a record: the keys of \<open>dimensions\<close> are the canonical
  names in their order, every score lies between 0 and 5, \<open>total_score\<close> is the sum of
  the scores, \<open>risk_category\<close> is the classification of the total, and every mitigation
  item has an \<open>id\<close>.
\<close>

definition record_inv :: "aia \<Rightarrow> bool" where
  "record_inv r \<longleftrightarrow>
     dict_keys (dimensions r) = DIMENSIONS \<and>
     list_all (\<lambda>e. 0 \<le> score e \<and> score e \<le> 5) (dict_values (dimensions r)) \<and>
     total_score r = sum_list (map score (dict_values (dimensions r))) \<and>
     risk_category r = classifyRisk (total_score r) \<and>
     list_all (\<lambda>it. map_of it ''id'' \<noteq> None) (mitigation_plan r)"

subsection \<open>Reading the mitigation plan\<close>



section \<open>Permissions of \<open>auth_manager.py\<close>\<close>

definition VIEW_DASHBOARD :: string where "VIEW_DASHBOARD = ''view_dashboard''"
definition VIEW_REGISTER :: string where "VIEW_REGISTER = ''view_register''"
definition ADD_SYSTEM :: string where "ADD_SYSTEM = ''add_system''"
definition DELETE_SYSTEM :: string where "DELETE_SYSTEM = ''delete_system''"
definition VIEW_AIA :: string where "VIEW_AIA = ''view_aia''"
definition EDIT_AIA :: string where "EDIT_AIA = ''edit_aia''"
definition CHANGE_STATUS :: string where "CHANGE_STATUS = ''change_status''"
definition APPROVE_AIA :: string where "APPROVE_AIA = ''approve_aia''"
definition EXPORT_AIA :: string where "EXPORT_AIA = ''export_aia''"
definition MANAGE_USERS :: string where "MANAGE_USERS = ''manage_users''"

text \<open>The ten permission tokens the class \<open>Permissions\<close> defines.\<close>

definition PERMISSIONS :: "string list" where
  "PERMISSIONS =
    [VIEW_DASHBOARD, VIEW_REGISTER, ADD_SYSTEM, DELETE_SYSTEM, VIEW_AIA, EDIT_AIA,
     CHANGE_STATUS, APPROVE_AIA, EXPORT_AIA, MANAGE_USERS]"

definition ROLE_PERMISSIONS :: "(string, string list) dict" where
  "ROLE_PERMISSIONS =
    [(''admin'',
        [VIEW_DASHBOARD, VIEW_REGISTER, ADD_SYSTEM, DELETE_SYSTEM, VIEW_AIA, EDIT_AIA,
         CHANGE_STATUS, APPROVE_AIA, EXPORT_AIA, MANAGE_USERS]),
     (''reviewer'',
        [VIEW_DASHBOARD, VIEW_REGISTER, VIEW_AIA, EDIT_AIA, CHANGE_STATUS, APPROVE_AIA,
         EXPORT_AIA]),
     (''assessor'',
        [VIEW_DASHBOARD, VIEW_REGISTER, ADD_SYSTEM, VIEW_AIA, EDIT_AIA, EXPORT_AIA]),
     (''viewer'', [VIEW_DASHBOARD, VIEW_REGISTER, VIEW_AIA, EXPORT_AIA])]"

record user =
  email :: string
  name :: string
  role :: string
  agency :: string
  created_at :: string
  last_login :: "string option"

definition has_permission :: "user \<Rightarrow> string \<Rightarrow> bool" where
  "has_permission u permission =
    (case map_of ROLE_PERMISSIONS (role u) of
       None \<Rightarrow> False
     | Some permissions \<Rightarrow> permission \<in> set permissions)"

section \<open>Example records\<close>

text \<open>
  A new record for the agency "Dept X", and the record after each of its thirteen
  dimensions was set to the score 3.
\<close>

definition dept_x_record :: aia where
  "dept_x_record =
     init (Given ''Benefits Triage'') (Given ''Dept X'') ''2025-01-01''
       ''2025-01-01T09:00:00'' ''2025-01-01T09:00:01''"

definition all_threes :: aia where
  "all_threes =
     fold (\<lambda>d r. snd (run (SetDimensionScore d (PInt 3) Omitted) ''2025-01-02T10:00:00'' r))
       DIMENSIONS dept_x_record"


definition linked_record :: aia where
  "linked_record =
     set_links (Given (Some ''DOI-AI-001'')) (Given (Some ''https://agency.example/transparency''))
       ''2025-01-06T10:00:00'' dept_x_record"

definition monitored_record :: aia where
  "monitored_record =
     set_monitoring (Given (Some ''Internal Monitoring SOP'')) (Given (Some ''Annually''))
       (Given (Some ''2025-10-20'')) ''2025-01-06T11:00:00'' dept_x_record"

section \<open>Properties\<close>

subsection \<open>Dictionaries\<close>

lemma dict_keys_dict_set:
  "dict_keys (dict_set k v d) = (if k \<in> set (dict_keys d) then dict_keys d else dict_keys d @ [k])"
  by (induction d) (auto simp: dict_keys_def)

lemma map_of_dict_set: "map_of (dict_set k v d) = (map_of d)(k \<mapsto> v)"
  by (induction d) (auto simp: fun_eq_iff)

lemma dict_values_dict_set:
  "set (dict_values (dict_set k v d)) \<subseteq> insert v (set (dict_values d))"
  by (induction d) (auto simp: dict_values_def)



lemma set_dict_keys_dict_set: "set (dict_keys (dict_set k v d)) = insert k (set (dict_keys d))"
  by (auto simp: dict_keys_dict_set)

lemma dict_keys_dict_update:
  "set (dict_keys (dict_update d u)) = set (dict_keys d) \<union> set (dict_keys u)"
proof (induction u arbitrary: d)
  case Nil
  then show ?case by (simp add: dict_keys_def)
next
  case (Cons p u)
  have "set (dict_keys (p # u)) = insert (fst p) (set (dict_keys u))"
    by (simp add: dict_keys_def)
  then show ?case
    by (simp add: Cons.IH set_dict_keys_dict_set)
qed

lemma distinct_DIMENSIONS: "distinct DIMENSIONS"
  by (simp add: DIMENSIONS_def)

lemma length_DIMENSIONS: "length DIMENSIONS = 13"
  by (simp add: DIMENSIONS_def)

lemma sum_scores_bounds:
  "list_all (\<lambda>e. 0 \<le> score e \<and> score e \<le> 5) es \<Longrightarrow>
     0 \<le> sum_list (map score es) \<and> sum_list (map score es) \<le> 5 * int (length es)"
  by (induction es) auto

lemma sum_values_by_keys:
  fixes f :: "'v \<Rightarrow> int"
  assumes "distinct (dict_keys d)"
  shows "sum_list (map f (dict_values d)) = sum_list (map (\<lambda>k. f (the (map_of d k))) (dict_keys d))"
proof -
  have eq: "map (\<lambda>p. f (the (map_of d (fst p)))) d = map (\<lambda>p. f (snd p)) d"
  proof (rule map_cong [OF refl])
    fix p assume "p \<in> set d"
    then have "map_of d (fst p) = Some (snd p)"
      using assms by (simp add: dict_keys_def)
    then show "f (the (map_of d (fst p))) = f (snd p)" by simp
  qed
  have "sum_list (map f (dict_values d)) = sum_list (map (\<lambda>p. f (snd p)) d)"
    by (simp add: dict_values_def comp_def)
  also have "\<dots> = sum_list (map (\<lambda>p. f (the (map_of d (fst p)))) d)"
    by (simp only: eq)
  also have "\<dots> = sum_list (map (\<lambda>k. f (the (map_of d k))) (dict_keys d))"
    by (simp add: dict_keys_def comp_def)
  finally show ?thesis .
qed

lemma sum_values_canonical:
  fixes f :: "'v \<Rightarrow> int"
  assumes "distinct (dict_keys d)" and "set (dict_keys d) = set DIMENSIONS"
  shows "sum_list (map f (dict_values d)) = sum_list (map (\<lambda>k. f (the (map_of d k))) DIMENSIONS)"
proof -
  have "sum_list (map f (dict_values d)) = sum_list (map (\<lambda>k. f (the (map_of d k))) (dict_keys d))"
    using assms(1) by (rule sum_values_by_keys)
  also have "\<dots> = (\<Sum>k\<in>set (dict_keys d). f (the (map_of d k)))"
    using assms(1) by (simp add: sum_list_distinct_conv_sum_set)
  also have "\<dots> = (\<Sum>k\<in>set DIMENSIONS. f (the (map_of d k)))"
    using assms(2) by simp
  also have "\<dots> = sum_list (map (\<lambda>k. f (the (map_of d k))) DIMENSIONS)"
    using distinct_DIMENSIONS by (simp add: sum_list_distinct_conv_sum_set)
  finally show ?thesis .
qed

subsection \<open>The invariant holds of every reachable record\<close>

lemma record_inv_init: "record_inv (init a b today n1 n2)"
  by (simp add: record_inv_def init_def dict_keys_def dict_values_def comp_def
      classifyRisk_def RISK_CATEGORIES_def list_all_iff)

lemma record_inv_update_risk:
  "dict_keys (dimensions r) = DIMENSIONS \<Longrightarrow>
   list_all (\<lambda>e. 0 \<le> score e \<and> score e \<le> 5) (dict_values (dimensions r)) \<Longrightarrow>
   list_all (\<lambda>it. map_of it ''id'' \<noteq> None) (mitigation_plan r) \<Longrightarrow>
   record_inv (update_risk_assessment r)"
  by (simp add: record_inv_def update_risk_assessment_def determine_risk_category_def
      calculate_total_score_def)


lemma has_key_iff: "map_of d k \<noteq> None \<longleftrightarrow> k \<in> set (dict_keys d)"
  by (simp add: dict_keys_def map_of_eq_None_iff)

lemma has_id_dict_update:
  "map_of it ''id'' \<noteq> None \<Longrightarrow> map_of (dict_update it u) ''id'' \<noteq> None"
  by (simp only: has_key_iff dict_keys_dict_update) simp


lemma update_first_keeps_ids:
  "list_all (\<lambda>it. map_of it ''id'' \<noteq> None) plan \<Longrightarrow> update_first i u plan = Inr (found, plan') \<Longrightarrow>
     list_all (\<lambda>it. map_of it ''id'' \<noteq> None) plan'"
proof (induction plan arbitrary: found plan')
  case Nil
  then show ?case by simp
next
  case (Cons it plan)
  from Cons.prems(1) obtain y where y: "map_of it ''id'' = Some y"
    and rest: "list_all (\<lambda>it. map_of it ''id'' \<noteq> None) plan"
    by auto
  show ?case
  proof (cases "y = i")
    case True
    with y Cons.prems(2) have "plan' = dict_update it u # plan" by simp
    moreover from y have "map_of (dict_update it u) ''id'' \<noteq> None"
      by (intro has_id_dict_update) simp
    ultimately show ?thesis using rest by simp
  next
    case False
    with y Cons.prems(2) obtain rest' where r: "update_first i u plan = Inr (found, rest')"
      and p: "plan' = it # rest'"
      by (auto split: sum.splits)
    from Cons.IH [OF rest r] y p show ?thesis by simp
  qed
qed

lemma update_first_length:
  "update_first i u plan = Inr (found, plan') \<Longrightarrow> length plan' = length plan"
  by (induction plan arbitrary: found plan') (auto split: option.splits if_splits sum.splits)

lemma keep_others_closed_form:
  "list_all (\<lambda>it. map_of it ''id'' \<noteq> None) plan \<Longrightarrow>
     keep_others i plan = Inr (filter (\<lambda>it. map_of it ''id'' \<noteq> Some i) plan)"
  by (induction plan) auto

lemma keep_others_subset:
  "keep_others i plan = Inr plan' \<Longrightarrow> set plan' \<subseteq> set plan"
  by (induction plan arbitrary: plan') (auto split: option.splits if_splits sum.splits)

text \<open>What each method leaves alone.\<close>

lemma set_metadata_frame:
  "dimensions (set_metadata a f d now r) = dimensions r \<and>
   total_score (set_metadata a f d now r) = total_score r \<and>
   risk_category (set_metadata a f d now r) = risk_category r \<and>
   mitigation_plan (set_metadata a f d now r) = mitigation_plan r"
  by (simp add: set_metadata_def Let_def split: option.splits)

lemma set_system_details_frame:
  "dimensions (set_system_details n a p t d c pr ra now r) = dimensions r \<and>
   total_score (set_system_details n a p t d c pr ra now r) = total_score r \<and>
   risk_category (set_system_details n a p t d c pr ra now r) = risk_category r \<and>
   mitigation_plan (set_system_details n a p t d c pr ra now r) = mitigation_plan r"
  by (simp add: set_system_details_def Let_def split: option.splits)

lemma add_mitigation_item_frame:
  "dimensions (snd (add_mitigation_item d rs a resp t st uuid now r)) = dimensions r \<and>
   total_score (snd (add_mitigation_item d rs a resp t st uuid now r)) = total_score r \<and>
   risk_category (snd (add_mitigation_item d rs a resp t st uuid now r)) = risk_category r"
  by (simp add: add_mitigation_item_def Let_def)

lemma update_mitigation_item_frame:
  "dimensions (snd (update_mitigation_item i u now r)) = dimensions r \<and>
   total_score (snd (update_mitigation_item i u now r)) = total_score r \<and>
   risk_category (snd (update_mitigation_item i u now r)) = risk_category r"
  by (simp add: update_mitigation_item_def Let_def split: sum.splits prod.splits)

lemma remove_mitigation_item_frame:
  "dimensions (snd (remove_mitigation_item i now r)) = dimensions r \<and>
   total_score (snd (remove_mitigation_item i now r)) = total_score r \<and>
   risk_category (snd (remove_mitigation_item i now r)) = risk_category r"
  by (simp add: remove_mitigation_item_def Let_def split: sum.splits)

lemma set_approval_frame:
  "dimensions (set_approval a rv ap now r) = dimensions r \<and>
   total_score (set_approval a rv ap now r) = total_score r \<and>
   risk_category (set_approval a rv ap now r) = risk_category r \<and>
   mitigation_plan (set_approval a rv ap now r) = mitigation_plan r"
  by (simp add: set_approval_def Let_def)

lemma set_links_frame:
  "dimensions (set_links i t now r) = dimensions r \<and>
   total_score (set_links i t now r) = total_score r \<and>
   risk_category (set_links i t now r) = risk_category r \<and>
   mitigation_plan (set_links i t now r) = mitigation_plan r"
  by (simp add: set_links_def Let_def split: option.splits)

lemma set_monitoring_frame:
  "dimensions (set_monitoring p f n now r) = dimensions r \<and>
   total_score (set_monitoring p f n now r) = total_score r \<and>
   risk_category (set_monitoring p f n now r) = risk_category r \<and>
   mitigation_plan (set_monitoring p f n now r) = mitigation_plan r"
  by (simp add: set_monitoring_def Let_def split: option.splits)

lemma set_aia_status_frame:
  "dimensions (snd (set_aia_status s now r)) = dimensions r \<and>
   total_score (snd (set_aia_status s now r)) = total_score r \<and>
   risk_category (snd (set_aia_status s now r)) = risk_category r \<and>
   mitigation_plan (snd (set_aia_status s now r)) = mitigation_plan r"
  by (simp add: set_aia_status_def Let_def)

lemma set_related_assessment_status_frame:
  "dimensions (snd (set_related_assessment_status n s now r)) = dimensions r \<and>
   total_score (snd (set_related_assessment_status n s now r)) = total_score r \<and>
   risk_category (snd (set_related_assessment_status n s now r)) = risk_category r \<and>
   mitigation_plan (snd (set_related_assessment_status n s now r)) = mitigation_plan r"
  by (simp add: set_related_assessment_status_def Let_def)

lemma set_dimension_score_plan:
  "mitigation_plan (snd (set_dimension_score n s j now r)) = mitigation_plan r"
  by (simp add: set_dimension_score_def Let_def update_risk_assessment_def
      determine_risk_category_def calculate_total_score_def)

lemma snd_raised: "snd (raised out) = snd out"
  by (simp add: raised_def)

lemma run_frame:
  "\<not> is_set_dimension_score c \<Longrightarrow>
     dimensions (snd (run c now r)) = dimensions r \<and>
     total_score (snd (run c now r)) = total_score r \<and>
     risk_category (snd (run c now r)) = risk_category r"
  by (cases c)
    (simp_all add: snd_raised set_metadata_frame set_system_details_frame
      add_mitigation_item_frame update_mitigation_item_frame remove_mitigation_item_frame
      set_approval_frame set_links_frame set_monitoring_frame set_aia_status_frame
      set_related_assessment_status_frame)

lemma run_plan_ids:
  assumes "list_all (\<lambda>it. map_of it ''id'' \<noteq> None) (mitigation_plan r)"
  shows "list_all (\<lambda>it. map_of it ''id'' \<noteq> None) (mitigation_plan (snd (run c now r)))"
proof (cases c)
  case (AddMitigationItem d rs a resp t st uuid)
  then show ?thesis
    using assms by (simp add: add_mitigation_item_def Let_def)
next
  case (UpdateMitigationItem i u)
  then show ?thesis
    using assms update_first_keeps_ids [OF assms]
    by (auto simp: snd_raised update_mitigation_item_def Let_def split: sum.splits prod.splits)
next
  case (RemoveMitigationItem i)
  then show ?thesis
    using assms
    by (simp add: snd_raised remove_mitigation_item_def Let_def keep_others_closed_form
        list_all_iff)
qed (use assms in \<open>simp_all add: snd_raised set_metadata_frame set_system_details_frame
      set_approval_frame set_links_frame set_monitoring_frame set_aia_status_frame
      set_related_assessment_status_frame set_dimension_score_plan\<close>)

lemma set_dimension_score_inv:
  assumes "record_inv r"
  shows "record_inv (snd (set_dimension_score n s j now r))"
proof (cases "fst (set_dimension_score n s j now r)")
  case (Inl e)
  then have "snd (set_dimension_score n s j now r) = r"
    by (auto simp: set_dimension_score_def Let_def split: if_splits)
  with assms show ?thesis by simp
next
  case (Inr u)
  then have ok: "n \<in> set (dict_keys (dimensions r))" "0 \<le> int_value s" "int_value s \<le> 5"
    by (auto simp: set_dimension_score_def Let_def split: if_splits)
  let ?d = "dict_set n \<lparr>score = int_value s, justification = arg_or '''' j\<rparr> (dimensions r)"
  have keys: "dict_keys ?d = DIMENSIONS"
    using ok(1) assms by (simp add: dict_keys_dict_set record_inv_def)
  have scores: "list_all (\<lambda>e. 0 \<le> score e \<and> score e \<le> 5) (dict_values ?d)"
    using dict_values_dict_set [of n "\<lparr>score = int_value s, justification = arg_or '''' j\<rparr>" "dimensions r"]
      ok(2,3) assms
    by (auto simp: list_all_iff record_inv_def)
  have "snd (set_dimension_score n s j now r) =
      (update_risk_assessment (r\<lparr>dimensions := ?d\<rparr>))\<lparr>last_modified_date := now\<rparr>"
    using Inr by (auto simp: set_dimension_score_def Let_def split: if_splits)
  moreover have "record_inv (update_risk_assessment (r\<lparr>dimensions := ?d\<rparr>))"
    using keys scores assms by (intro record_inv_update_risk) (simp_all add: record_inv_def)
  ultimately show ?thesis
    by (simp add: record_inv_def)
qed

lemma run_inv:
  assumes "record_inv r"
  shows "record_inv (snd (run c now r))"
proof (cases "is_set_dimension_score c")
  case True
  then obtain n s j where "c = SetDimensionScore n s j"
    by (cases c) simp_all
  then show ?thesis
    using set_dimension_score_inv [OF assms] by (simp add: snd_raised)
next
  case False
  have "list_all (\<lambda>it. map_of it ''id'' \<noteq> None) (mitigation_plan r)"
    using assms by (simp add: record_inv_def)
  from run_plan_ids [OF this] run_frame [OF False] assms show ?thesis
    by (simp add: record_inv_def)
qed

lemma update_risk_assessment_inv: "record_inv r \<Longrightarrow> record_inv (update_risk_assessment r)"
  by (rule record_inv_update_risk) (simp_all add: record_inv_def)

lemma reachable_inv: "reachable r \<Longrightarrow> record_inv r"
  by (induction rule: reachable.induct)
    (simp_all add: record_inv_init run_inv update_risk_assessment_inv)

subsection \<open>Classification of a total\<close>

text \<open>
  C1. Every total in \<open>[0,65]\<close> is classified into exactly one of Low (0 to 10), Medium
  (11 to 25), High (26 to 40) and Severe (41 to 65), each with its fixed action: exactly
  one row of the table holds such a total, so the four ranges have no gap and no
  overlap. Every total below 0 or above 65 is held by no row and is classified
  Undefined with the action "Score out of expected range.". The method
  \<open>_determine_risk_category\<close> stores this classification of the record's total.
\<close>

theorem classifyRisk_partition:
  "(0 \<le> t \<and> t \<le> 10 \<longrightarrow> classifyRisk t = \<lparr>category = ''Low'', action = LOW_ACTION\<rparr>) \<and>
   (11 \<le> t \<and> t \<le> 25 \<longrightarrow> classifyRisk t = \<lparr>category = ''Medium'', action = MEDIUM_ACTION\<rparr>) \<and>
   (26 \<le> t \<and> t \<le> 40 \<longrightarrow> classifyRisk t = \<lparr>category = ''High'', action = HIGH_ACTION\<rparr>) \<and>
   (41 \<le> t \<and> t \<le> 65 \<longrightarrow> classifyRisk t = \<lparr>category = ''Severe'', action = SEVERE_ACTION\<rparr>) \<and>
   (t < 0 \<or> 65 < t \<longrightarrow>
      classifyRisk t = \<lparr>category = ''Undefined'', action = ''Score out of expected range.''\<rparr>) \<and>
   (0 \<le> t \<and> t \<le> 65 \<longrightarrow> length (matching_rows RISK_CATEGORIES t) = 1) \<and>
   (t < 0 \<or> 65 < t \<longrightarrow> matching_rows RISK_CATEGORIES t = []) \<and>
   risk_category (determine_risk_category r) = classifyRisk (total_score r)"
  by (simp add: classifyRisk_def RISK_CATEGORIES_def matching_rows_def determine_risk_category_def)

theorem classifyRisk_partition_witness:
  "category (classifyRisk 10) = ''Low'' \<and> category (classifyRisk 11) = ''Medium'' \<and>
   category (classifyRisk 25) = ''Medium'' \<and> category (classifyRisk 26) = ''High'' \<and>
   category (classifyRisk 40) = ''High'' \<and> category (classifyRisk 41) = ''Severe'' \<and>
   category (classifyRisk 65) = ''Severe'' \<and> category (classifyRisk 0) = ''Low'' \<and>
   classifyRisk (- 1) = \<lparr>category = ''Undefined'', action = ''Score out of expected range.''\<rparr> \<and>
   classifyRisk 66 = \<lparr>category = ''Undefined'', action = ''Score out of expected range.''\<rparr>"
  using classifyRisk_partition [of 10] classifyRisk_partition [of 11]
    classifyRisk_partition [of 25] classifyRisk_partition [of 26]
    classifyRisk_partition [of 40] classifyRisk_partition [of 41]
    classifyRisk_partition [of 65] classifyRisk_partition [of 0]
    classifyRisk_partition [of "- 1"] classifyRisk_partition [of 66]
  by simp

subsection \<open>The dimensions of a reachable record\<close>

lemma reachable_fold_run:
  "reachable r \<Longrightarrow> reachable (fold (\<lambda>d r. snd (run (f d) now r)) ds r)"
  by (induction ds arbitrary: r) (simp_all add: reachable.reach_run)

lemma reachable_all_threes: "reachable all_threes"
  unfolding all_threes_def dept_x_record_def
  by (intro reachable_fold_run reachable.reach_init)

lemma dims_all_threes:
  "dimensions all_threes = map (\<lambda>dim. (dim, \<lparr>score = 3, justification = ''''\<rparr>)) DIMENSIONS"
  by (simp add: all_threes_def dept_x_record_def DIMENSIONS_def init_def raised_def
      set_dimension_score_def
      dict_keys_def Let_def update_risk_assessment_def determine_risk_category_def
      calculate_total_score_def)

text \<open>
  C7. In every reachable record the keys of \<open>dimensions\<close> are exactly the thirteen
  canonical names (pairwise different, in the order of \<open>DIMENSIONS\<close>), and the score of
  each dimension is an integer between 0 and 5. The constructor's record is reachable,
  and no call other than \<open>set_dimension_score\<close>, nor the recomputation of the risk
  assessment, changes \<open>dimensions\<close>.
\<close>

theorem dimensions_invariant:
  "reachable r \<Longrightarrow>
     dict_keys (dimensions r) = DIMENSIONS \<and>
     distinct DIMENSIONS \<and> length DIMENSIONS = 13 \<and>
     (\<forall>d \<in> set DIMENSIONS. \<exists>e. map_of (dimensions r) d = Some e \<and> 0 \<le> score e \<and> score e \<le> 5) \<and>
     (\<forall>e \<in> set (dict_values (dimensions r)). 0 \<le> score e \<and> score e \<le> 5) \<and>
     (\<forall>c now. \<not> is_set_dimension_score c \<longrightarrow> dimensions (snd (run c now r)) = dimensions r) \<and>
     dimensions (update_risk_assessment r) = dimensions r"
proof -
  assume "reachable r"
  then have inv: "record_inv r" by (rule reachable_inv)
  then have keys: "dict_keys (dimensions r) = DIMENSIONS"
    and scores: "\<forall>e \<in> set (dict_values (dimensions r)). 0 \<le> score e \<and> score e \<le> 5"
    by (simp_all add: record_inv_def list_all_iff)
  have "\<exists>e. map_of (dimensions r) d = Some e \<and> 0 \<le> score e \<and> score e \<le> 5"
    if "d \<in> set DIMENSIONS" for d
  proof -
    from that keys have "d \<in> set (dict_keys (dimensions r))" by simp
    then have "map_of (dimensions r) d \<noteq> None"
      by (simp only: has_key_iff)
    then obtain e where e: "map_of (dimensions r) d = Some e" by auto
    then have "e \<in> set (dict_values (dimensions r))"
      by (auto simp: dict_values_def dest!: map_of_SomeD intro: rev_image_eqI)
    with scores e show ?thesis by simp
  qed
  moreover have "dimensions (update_risk_assessment r) = dimensions r"
    by (simp add: update_risk_assessment_def determine_risk_category_def calculate_total_score_def)
  ultimately show ?thesis
    using keys scores distinct_DIMENSIONS length_DIMENSIONS run_frame by blast
qed

theorem dimensions_invariant_witness:
  "reachable all_threes \<and> dict_keys (dimensions all_threes) = DIMENSIONS \<and>
   map_of (dimensions all_threes) ''Privacy Risk'' = Some \<lparr>score = 3, justification = ''''\<rparr>"
  using dimensions_invariant [OF reachable_all_threes] reachable_all_threes
  by (simp add: dims_all_threes DIMENSIONS_def)

subsection \<open>The total of a reachable record\<close>

text \<open>
  C2. In every reachable record \<open>total_score\<close> is the sum of the scores of the thirteen
  dimensions and lies between 0 and 65. The constructor gives the total 0 with every
  score 0; \<open>set_dimension_score\<close> leaves the total equal to the sum of the scores it
  leaves; no other call changes \<open>dimensions\<close> or \<open>total_score\<close>. On any dictionary whose
  keys are the thirteen canonical names and whose scores lie between 0 and 5,
  \<open>_calculate_total_score\<close> computes the sum of the thirteen scores, a number between 0
  and 65.
\<close>

theorem total_score_invariant:
  "reachable r \<Longrightarrow>
     total_score r = sum_list (map (\<lambda>d. score (the (map_of (dimensions r) d))) DIMENSIONS) \<and>
     0 \<le> total_score r \<and> total_score r \<le> 65 \<and>
     total_score (init system_name_arg agency_name_arg today now_created now_modified) = 0 \<and>
     list_all (\<lambda>e. score e = 0) (dict_values (dimensions (init system_name_arg agency_name_arg today now_created now_modified))) \<and>
     (\<forall>c now. \<not> is_set_dimension_score c \<longrightarrow>
        dimensions (snd (run c now r)) = dimensions r \<and>
        total_score (snd (run c now r)) = total_score r) \<and>
     (\<forall>n s j now. total_score (snd (set_dimension_score n s j now r)) =
        sum_list (map (\<lambda>d. score (the (map_of (dimensions (snd (set_dimension_score n s j now r))) d)))
          DIMENSIONS)) \<and>
     (\<forall>d. distinct (dict_keys d) \<and> set (dict_keys d) = set DIMENSIONS \<and>
        list_all (\<lambda>e. 0 \<le> score e \<and> score e \<le> 5) (dict_values d) \<longrightarrow>
        total_score (calculate_total_score (r\<lparr>dimensions := d\<rparr>)) =
          sum_list (map (\<lambda>k. score (the (map_of d k))) DIMENSIONS) \<and>
        0 \<le> total_score (calculate_total_score (r\<lparr>dimensions := d\<rparr>)) \<and>
        total_score (calculate_total_score (r\<lparr>dimensions := d\<rparr>)) \<le> 65)"
proof -
  assume reach: "reachable r"
  have canonical: "total_score q = sum_list (map (\<lambda>d. score (the (map_of (dimensions q) d))) DIMENSIONS)
      \<and> 0 \<le> total_score q \<and> total_score q \<le> 65" if "record_inv q" for q
  proof -
    from that have keys: "dict_keys (dimensions q) = DIMENSIONS"
      and scores: "list_all (\<lambda>e. 0 \<le> score e \<and> score e \<le> 5) (dict_values (dimensions q))"
      and total: "total_score q = sum_list (map score (dict_values (dimensions q)))"
      by (simp_all add: record_inv_def)
    have "length (dict_values (dimensions q)) = length (dict_keys (dimensions q))"
      by (simp add: dict_values_def dict_keys_def)
    with keys have len: "length (dict_values (dimensions q)) = 13"
      by (simp add: length_DIMENSIONS)
    from keys have "sum_list (map score (dict_values (dimensions q))) =
        sum_list (map (\<lambda>d. score (the (map_of (dimensions q) d))) DIMENSIONS)"
      by (intro sum_values_canonical) (simp_all add: distinct_DIMENSIONS)
    with total sum_scores_bounds [OF scores] len show ?thesis by simp
  qed
  have compute: "total_score (calculate_total_score (r\<lparr>dimensions := d\<rparr>)) =
          sum_list (map (\<lambda>k. score (the (map_of d k))) DIMENSIONS) \<and>
        0 \<le> total_score (calculate_total_score (r\<lparr>dimensions := d\<rparr>)) \<and>
        total_score (calculate_total_score (r\<lparr>dimensions := d\<rparr>)) \<le> 65"
    if d: "distinct (dict_keys d)" "set (dict_keys d) = set DIMENSIONS"
      "list_all (\<lambda>e. 0 \<le> score e \<and> score e \<le> 5) (dict_values d)" for d
  proof -
    have "length (dict_keys d) = length DIMENSIONS"
      using d(1,2) distinct_DIMENSIONS by (metis distinct_card)
    then have len: "length (dict_values d) = 13"
      by (simp add: dict_values_def dict_keys_def length_DIMENSIONS)
    have "sum_list (map score (dict_values d)) = sum_list (map (\<lambda>k. score (the (map_of d k))) DIMENSIONS)"
      using d(1,2) by (rule sum_values_canonical)
    with sum_scores_bounds [OF d(3)] len show ?thesis
      by (simp add: calculate_total_score_def)
  qed
  have init0: "total_score (init system_name_arg agency_name_arg today now_created now_modified) = 0 \<and>
     list_all (\<lambda>e. score e = 0) (dict_values (dimensions (init system_name_arg agency_name_arg today now_created now_modified)))"
    by (simp add: init_def dict_values_def list_all_iff)
  have setdim: "total_score (snd (set_dimension_score n s j now r)) =
        sum_list (map (\<lambda>d. score (the (map_of (dimensions (snd (set_dimension_score n s j now r))) d)))
          DIMENSIONS)" for n s j now
    using canonical [OF set_dimension_score_inv [OF reachable_inv [OF reach]]] by simp
  from canonical [OF reachable_inv [OF reach]] init0 run_frame compute setdim
  show ?thesis by blast
qed

theorem total_score_invariant_witness:
  "reachable all_threes \<and> total_score all_threes = 39 \<and>
   total_score (snd (run (SetAiaStatus ''Review'') ''2025-01-03T08:00:00'' all_threes)) = 39 \<and>
   total_score (calculate_total_score (all_threes\<lparr>dimensions := dimensions all_threes\<rparr>)) = 39"
proof -
  note inst = total_score_invariant [OF reachable_all_threes, where system_name_arg = Omitted
      and agency_name_arg = Omitted and today = "''2025-01-01''"
      and now_created = "''2025-01-01T09:00:00''" and now_modified = "''2025-01-01T09:00:00''"]
  have sum: "sum_list (map (\<lambda>d. score (the (map_of (dimensions all_threes) d))) DIMENSIONS) = 39"
    by (simp add: dims_all_threes DIMENSIONS_def)
  from inst have "total_score all_threes =
      sum_list (map (\<lambda>d. score (the (map_of (dimensions all_threes) d))) DIMENSIONS)"
    by (rule conjunct1)
  with sum have t: "total_score all_threes = 39" by simp
  have frame: "\<forall>c now. \<not> is_set_dimension_score c \<longrightarrow>
        dimensions (snd (run c now all_threes)) = dimensions all_threes \<and>
        total_score (snd (run c now all_threes)) = total_score all_threes"
    using inst apply (elim conjE) apply assumption done
  have compute: "\<forall>d. distinct (dict_keys d) \<and> set (dict_keys d) = set DIMENSIONS \<and>
        list_all (\<lambda>e. 0 \<le> score e \<and> score e \<le> 5) (dict_values d) \<longrightarrow>
        total_score (calculate_total_score (all_threes\<lparr>dimensions := d\<rparr>)) =
          sum_list (map (\<lambda>k. score (the (map_of d k))) DIMENSIONS) \<and>
        0 \<le> total_score (calculate_total_score (all_threes\<lparr>dimensions := d\<rparr>)) \<and>
        total_score (calculate_total_score (all_threes\<lparr>dimensions := d\<rparr>)) \<le> 65"
    using inst apply (elim conjE) apply assumption done
  have "\<not> is_set_dimension_score (SetAiaStatus ''Review'')" by simp
  with frame [rule_format, of "SetAiaStatus ''Review''" "''2025-01-03T08:00:00''"] t
  have s: "total_score (snd (run (SetAiaStatus ''Review'') ''2025-01-03T08:00:00'' all_threes)) = 39"
    by simp
  have d: "distinct (dict_keys (dimensions all_threes)) \<and>
      set (dict_keys (dimensions all_threes)) = set DIMENSIONS \<and>
      list_all (\<lambda>e. 0 \<le> score e \<and> score e \<le> 5) (dict_values (dimensions all_threes))"
    by (simp add: dims_all_threes DIMENSIONS_def dict_keys_def dict_values_def)
  from compute [rule_format, OF d] sum
  have c: "total_score (calculate_total_score (all_threes\<lparr>dimensions := dimensions all_threes\<rparr>)) = 39"
    by simp
  from reachable_all_threes t s c show ?thesis by blast
qed

subsection \<open>Setting the score of a dimension\<close>

lemma sum_scores_dict_set:
  "distinct (dict_keys d) \<Longrightarrow> k \<in> set (dict_keys d) \<Longrightarrow>
     sum_list (map score (dict_values (dict_set k e d))) =
       sum_list (map score (dict_values d)) - score (the (map_of d k)) + score e"
proof (induction d)
  case Nil
  then show ?case by (simp add: dict_keys_def)
next
  case (Cons p d)
  show ?case
  proof (cases "fst p = k")
    case True
    then show ?thesis by (cases p) (simp add: dict_values_def)
  next
    case False
    with Cons.prems have "distinct (dict_keys d)" and "k \<in> set (dict_keys d)"
      by (simp_all add: dict_keys_def)
    from Cons.IH [OF this] False show ?thesis
      by (simp add: dict_values_def)
  qed
qed

lemma total_all_threes: "total_score all_threes = 39"
  using reachable_inv [OF reachable_all_threes]
  by (simp add: record_inv_def dims_all_threes dict_values_def DIMENSIONS_def)

text \<open>
  C3. On a reachable record \<open>set_dimension_score\<close> raises \<open>ValueError\<close> (the
  specification's InvalidArgument) when the name is not one of the thirteen canonical
  names, whatever the score, and when the name is canonical and the score is not an
  integer between 0 and 5; the record is then exactly the record before the call. On a
  canonical name and an integer between 0 and 5 it returns, the dimension holds the score
  and the justification, every other dimension is as before, \<open>total_score\<close> is the sum
  of the scores (the old total less the old score plus the new one) and \<open>risk_category\<close>
  is the classification of the new total.
\<close>

theorem set_dimension_score_checked:
  assumes "reachable r"
  shows
   "(dimension_name \<notin> set DIMENSIONS \<longrightarrow>
       set_dimension_score dimension_name s j now r =
         (Inl (ValueError (''Invalid dimension name: '' @ dimension_name)), r)) \<and>
    (dimension_name \<in> set DIMENSIONS \<and>
       \<not> (isinstance_int s \<and> 0 \<le> int_value s \<and> int_value s \<le> 5) \<longrightarrow>
       set_dimension_score dimension_name s j now r =
         (Inl (ValueError
            (''Score for '' @ dimension_name @ '' must be an integer between 0 and 5.'')), r)) \<and>
    (dimension_name \<in> set DIMENSIONS \<and> isinstance_int s \<and> 0 \<le> int_value s \<and> int_value s \<le> 5 \<longrightarrow>
       fst (set_dimension_score dimension_name s j now r) = Inr () \<and>
       map_of (dimensions (snd (set_dimension_score dimension_name s j now r))) dimension_name =
         Some \<lparr>score = int_value s, justification = arg_or '''' j\<rparr> \<and>
       (\<forall>d. d \<noteq> dimension_name \<longrightarrow>
          map_of (dimensions (snd (set_dimension_score dimension_name s j now r))) d =
          map_of (dimensions r) d) \<and>
       total_score (snd (set_dimension_score dimension_name s j now r)) =
         sum_list (map score (dict_values
           (dimensions (snd (set_dimension_score dimension_name s j now r))))) \<and>
       total_score (snd (set_dimension_score dimension_name s j now r)) =
         total_score r - score (the (map_of (dimensions r) dimension_name)) + int_value s \<and>
       risk_category (snd (set_dimension_score dimension_name s j now r)) =
         classifyRisk (total_score (snd (set_dimension_score dimension_name s j now r))))"
proof -
  from assms have inv: "record_inv r" by (rule reachable_inv)
  then have keys: "dict_keys (dimensions r) = DIMENSIONS"
    and total: "total_score r = sum_list (map score (dict_values (dimensions r)))"
    by (simp_all add: record_inv_def)
  have bad_name: "set_dimension_score dimension_name s j now r =
         (Inl (ValueError (''Invalid dimension name: '' @ dimension_name)), r)"
    if "dimension_name \<notin> set DIMENSIONS"
    using that keys by (simp add: set_dimension_score_def)
  have bad_score: "set_dimension_score dimension_name s j now r =
         (Inl (ValueError
            (''Score for '' @ dimension_name @ '' must be an integer between 0 and 5.'')), r)"
    if "dimension_name \<in> set DIMENSIONS"
      and "\<not> (isinstance_int s \<and> 0 \<le> int_value s \<and> int_value s \<le> 5)"
    using that keys by (auto simp: set_dimension_score_def)
  have good: "fst (set_dimension_score dimension_name s j now r) = Inr () \<and>
       map_of (dimensions (snd (set_dimension_score dimension_name s j now r))) dimension_name =
         Some \<lparr>score = int_value s, justification = arg_or '''' j\<rparr> \<and>
       (\<forall>d. d \<noteq> dimension_name \<longrightarrow>
          map_of (dimensions (snd (set_dimension_score dimension_name s j now r))) d =
          map_of (dimensions r) d) \<and>
       total_score (snd (set_dimension_score dimension_name s j now r)) =
         sum_list (map score (dict_values
           (dimensions (snd (set_dimension_score dimension_name s j now r))))) \<and>
       total_score (snd (set_dimension_score dimension_name s j now r)) =
         total_score r - score (the (map_of (dimensions r) dimension_name)) + int_value s \<and>
       risk_category (snd (set_dimension_score dimension_name s j now r)) =
         classifyRisk (total_score (snd (set_dimension_score dimension_name s j now r)))"
    if name: "dimension_name \<in> set DIMENSIONS"
      and ok: "isinstance_int s" "0 \<le> int_value s" "int_value s \<le> 5"
  proof -
    let ?e = "\<lparr>score = int_value s, justification = arg_or '''' j\<rparr>"
    let ?d = "dict_set dimension_name ?e (dimensions r)"
    have out: "set_dimension_score dimension_name s j now r =
        (Inr (), (update_risk_assessment (r\<lparr>dimensions := ?d\<rparr>))\<lparr>last_modified_date := now\<rparr>)"
      using name ok keys by (simp add: set_dimension_score_def Let_def)
    have dims: "dimensions (snd (set_dimension_score dimension_name s j now r)) = ?d"
      and tot: "total_score (snd (set_dimension_score dimension_name s j now r)) =
          sum_list (map score (dict_values ?d))"
      and risk: "risk_category (snd (set_dimension_score dimension_name s j now r)) =
          classifyRisk (sum_list (map score (dict_values ?d)))"
      by (simp_all add: out update_risk_assessment_def determine_risk_category_def
          calculate_total_score_def)
    have "sum_list (map score (dict_values ?d)) =
        sum_list (map score (dict_values (dimensions r))) -
          score (the (map_of (dimensions r) dimension_name)) + score ?e"
      using name keys distinct_DIMENSIONS by (intro sum_scores_dict_set) simp_all
    with total have delta: "sum_list (map score (dict_values ?d)) =
        total_score r - score (the (map_of (dimensions r) dimension_name)) + int_value s"
      by simp
    show ?thesis
      by (simp add: dims tot risk delta [symmetric] map_of_dict_set) (simp add: out)
  qed
  from bad_name bad_score good show ?thesis by blast
qed

theorem set_dimension_score_checked_witness:
  "reachable all_threes \<and>
   set_dimension_score ''Human Impact'' (PInt 6) Omitted ''2025-01-03T08:00:00'' all_threes =
     (Inl (ValueError (''Score for '' @ ''Human Impact'' @ '' must be an integer between 0 and 5.'')),
      all_threes) \<and>
   set_dimension_score ''Human Impact'' (PInt (- 1)) Omitted ''2025-01-03T08:00:00'' all_threes =
     (Inl (ValueError (''Score for '' @ ''Human Impact'' @ '' must be an integer between 0 and 5.'')),
      all_threes) \<and>
   set_dimension_score ''Human Impact'' (PStr ''3'') Omitted ''2025-01-03T08:00:00'' all_threes =
     (Inl (ValueError (''Score for '' @ ''Human Impact'' @ '' must be an integer between 0 and 5.'')),
      all_threes) \<and>
   set_dimension_score ''Bias'' (PInt 3) Omitted ''2025-01-03T08:00:00'' all_threes =
     (Inl (ValueError (''Invalid dimension name: '' @ ''Bias'')), all_threes) \<and>
   total_score (snd (set_dimension_score ''Human Impact'' (PInt 5) (Given ''Affects benefits'')
     ''2025-01-03T08:00:00'' all_threes)) = 41 \<and>
   category (risk_category (snd (set_dimension_score ''Human Impact'' (PInt 5)
     (Given ''Affects benefits'') ''2025-01-03T08:00:00'' all_threes))) = ''Severe''"
proof -
  have name: "''Human Impact'' \<in> set DIMENSIONS" and other: "''Bias'' \<notin> set DIMENSIONS"
    by (simp_all add: DIMENSIONS_def)
  have six: "\<not> (isinstance_int (PInt 6) \<and> 0 \<le> int_value (PInt 6) \<and> int_value (PInt 6) \<le> 5)"
    and minus: "\<not> (isinstance_int (PInt (- 1)) \<and> 0 \<le> int_value (PInt (- 1)) \<and>
      int_value (PInt (- 1)) \<le> 5)"
    and str: "\<not> (isinstance_int (PStr ''3'') \<and> 0 \<le> int_value (PStr ''3'') \<and>
      int_value (PStr ''3'') \<le> 5)"
    and five: "isinstance_int (PInt 5) \<and> 0 \<le> int_value (PInt 5) \<and> int_value (PInt 5) \<le> 5"
    by simp_all
  note c = set_dimension_score_checked [OF reachable_all_threes]
  from c [of "''Human Impact''" "PInt 6" Omitted "''2025-01-03T08:00:00''"] name six
  have w1: "set_dimension_score ''Human Impact'' (PInt 6) Omitted ''2025-01-03T08:00:00'' all_threes =
     (Inl (ValueError (''Score for '' @ ''Human Impact'' @ '' must be an integer between 0 and 5.'')),
      all_threes)"
    by blast
  from c [of "''Human Impact''" "PInt (- 1)" Omitted "''2025-01-03T08:00:00''"] name minus
  have w2: "set_dimension_score ''Human Impact'' (PInt (- 1)) Omitted ''2025-01-03T08:00:00'' all_threes =
     (Inl (ValueError (''Score for '' @ ''Human Impact'' @ '' must be an integer between 0 and 5.'')),
      all_threes)"
    by blast
  from c [of "''Human Impact''" "PStr ''3''" Omitted "''2025-01-03T08:00:00''"] name str
  have w3: "set_dimension_score ''Human Impact'' (PStr ''3'') Omitted ''2025-01-03T08:00:00'' all_threes =
     (Inl (ValueError (''Score for '' @ ''Human Impact'' @ '' must be an integer between 0 and 5.'')),
      all_threes)"
    by blast
  from c [of "''Bias''" "PInt 3" Omitted "''2025-01-03T08:00:00''"] other
  have w4: "set_dimension_score ''Bias'' (PInt 3) Omitted ''2025-01-03T08:00:00'' all_threes =
     (Inl (ValueError (''Invalid dimension name: '' @ ''Bias'')), all_threes)"
    by blast
  let ?r = "snd (set_dimension_score ''Human Impact'' (PInt 5) (Given ''Affects benefits'')
     ''2025-01-03T08:00:00'' all_threes)"
  from c [of "''Human Impact''" "PInt 5" "Given ''Affects benefits''" "''2025-01-03T08:00:00''"]
    name five
  have t: "total_score ?r =
      total_score all_threes - score (the (map_of (dimensions all_threes) ''Human Impact'')) +
        int_value (PInt 5)"
    and k: "risk_category ?r = classifyRisk (total_score ?r)"
    by blast+
  have "map_of (dimensions all_threes) ''Human Impact'' = Some \<lparr>score = 3, justification = ''''\<rparr>"
    by (simp add: dims_all_threes DIMENSIONS_def)
  with t total_all_threes have w5: "total_score ?r = 41" by simp
  with k have w6: "category (risk_category ?r) = ''Severe''"
    by (simp add: classifyRisk_def RISK_CATEGORIES_def)
  from reachable_all_threes w1 w2 w3 w4 w5 w6 show ?thesis by blast
qed

subsection \<open>Time stamps\<close>

lemma run_last_modified:
  "fst (run c now r) = None \<Longrightarrow> last_modified_date (snd (run c now r)) = now"
proof (cases c)
  case (SetMetadata a f d)
  then show ?thesis by (simp add: set_metadata_def Let_def split: option.splits)
next
  case (SetSystemDetails n a p t d c pr ra)
  then show ?thesis by (simp add: set_system_details_def Let_def split: option.splits)
next
  case (SetDimensionScore n s j)
  assume "fst (run c now r) = None"
  with SetDimensionScore show ?thesis
    by (simp add: raised_def set_dimension_score_def Let_def split: if_splits)
next
  case (AddMitigationItem d rs a resp t st uuid)
  then show ?thesis by (simp add: add_mitigation_item_def Let_def)
next
  case (UpdateMitigationItem i u)
  assume "fst (run c now r) = None"
  with UpdateMitigationItem show ?thesis
    by (auto simp: raised_def update_mitigation_item_def Let_def split: sum.splits if_splits)
next
  case (RemoveMitigationItem i)
  assume "fst (run c now r) = None"
  with RemoveMitigationItem show ?thesis
    by (auto simp: raised_def remove_mitigation_item_def Let_def split: sum.splits if_splits)
next
  case (SetApproval a rv ap)
  then show ?thesis by (simp add: set_approval_def Let_def)
next
  case (SetLinks i t)
  then show ?thesis by (simp add: set_links_def Let_def split: option.splits)
next
  case (SetMonitoring p f n)
  then show ?thesis by (simp add: set_monitoring_def Let_def split: option.splits)
next
  case (SetAiaStatus s)
  assume "fst (run c now r) = None"
  with SetAiaStatus show ?thesis
    by (simp add: raised_def set_aia_status_def Let_def split: if_splits)
next
  case (SetRelatedAssessmentStatus n s)
  assume "fst (run c now r) = None"
  with SetRelatedAssessmentStatus show ?thesis
    by (simp add: raised_def set_related_assessment_status_def Let_def split: if_splits)
qed

lemma run_creation_date: "creation_date (snd (run c now r)) = creation_date r"
proof (cases c)
  case (SetMetadata a f d)
  then show ?thesis by (simp add: set_metadata_def Let_def split: option.splits)
next
  case (SetSystemDetails n a p t d c pr ra)
  then show ?thesis by (simp add: set_system_details_def Let_def split: option.splits)
next
  case (SetDimensionScore n s j)
  then show ?thesis
    by (simp add: raised_def set_dimension_score_def Let_def update_risk_assessment_def
        determine_risk_category_def calculate_total_score_def)
next
  case (AddMitigationItem d rs a resp t st uuid)
  then show ?thesis by (simp add: add_mitigation_item_def Let_def)
next
  case (UpdateMitigationItem i u)
  then show ?thesis
    by (simp add: raised_def update_mitigation_item_def Let_def split: sum.splits prod.splits)
next
  case (RemoveMitigationItem i)
  then show ?thesis
    by (simp add: raised_def remove_mitigation_item_def Let_def split: sum.splits)
next
  case (SetApproval a rv ap)
  then show ?thesis by (simp add: set_approval_def Let_def)
next
  case (SetLinks i t)
  then show ?thesis by (simp add: set_links_def Let_def split: option.splits)
next
  case (SetMonitoring p f n)
  then show ?thesis by (simp add: set_monitoring_def Let_def split: option.splits)
next
  case (SetAiaStatus s)
  then show ?thesis by (simp add: raised_def set_aia_status_def Let_def)
next
  case (SetRelatedAssessmentStatus n s)
  then show ?thesis by (simp add: raised_def set_related_assessment_status_def Let_def)
qed

text \<open>
  C9. Each of the eleven mutating calls that returns without an exception leaves
  \<open>last_modified_date\<close> equal to the reading of the clock it took. No call, failed or not,
  changes \<open>creation_date\<close>, which the constructor sets to its first reading of the clock.
\<close>

theorem mutations_stamp_last_modified:
  "(fst (run c now r) = None \<longrightarrow> last_modified_date (snd (run c now r)) = now) \<and>
   creation_date (snd (run c now r)) = creation_date r \<and>
   creation_date (init system_name_arg agency_name_arg today now_created now_modified) = now_created"
  using run_last_modified [of c now r] run_creation_date [of c now r]
  by (simp add: init_def)

theorem mutations_stamp_last_modified_witness:
  "fst (run (SetAiaStatus ''Approved'') ''2025-02-01T12:00:00'' dept_x_record) = None \<and>
   last_modified_date (snd (run (SetAiaStatus ''Approved'') ''2025-02-01T12:00:00'' dept_x_record)) =
     ''2025-02-01T12:00:00'' \<and>
   creation_date (snd (run (SetAiaStatus ''Approved'') ''2025-02-01T12:00:00'' dept_x_record)) =
     ''2025-01-01T09:00:00''"
proof -
  have ok: "fst (run (SetAiaStatus ''Approved'') ''2025-02-01T12:00:00'' dept_x_record) = None"
    by (simp add: raised_def set_aia_status_def AIA_STATUSES_def)
  have created: "creation_date dept_x_record = ''2025-01-01T09:00:00''"
    by (simp add: dept_x_record_def init_def)
  from mutations_stamp_last_modified
    [of "SetAiaStatus ''Approved''" "''2025-02-01T12:00:00''" dept_x_record] ok created
  show ?thesis by simp
qed

subsection \<open>Statuses of related assessments\<close>

text \<open>
  C8. \<open>set_related_assessment_status\<close> raises \<open>ValueError\<close> (the specification's
  InvalidArgument) exactly when the status is not one of Not Started, In Progress,
  Completed and N/A, and the record is then exactly the record before the call, so a
  name that was unknown is not added. With one of the four statuses it returns, the name
  holds the status, every other name is as before, and a name that was not a key is
  added after the keys there were.
\<close>

theorem set_related_assessment_status_checked:
  "(status \<notin> set RELATED_STATUSES \<longleftrightarrow>
      (\<exists>e. fst (set_related_assessment_status assessment_name status now r) = Inl e)) \<and>
   (status \<notin> set RELATED_STATUSES \<longrightarrow>
      set_related_assessment_status assessment_name status now r =
        (Inl (ValueError
           (''Invalid status for '' @ assessment_name @
            ''. Must be one of: ['Not Started', 'In Progress', 'Completed', 'N/A']'')), r)) \<and>
   (status \<in> set RELATED_STATUSES \<longrightarrow>
      fst (set_related_assessment_status assessment_name status now r) = Inr () \<and>
      map_of (related_assessment_statuses
        (snd (set_related_assessment_status assessment_name status now r))) assessment_name =
        Some status \<and>
      (\<forall>m. m \<noteq> assessment_name \<longrightarrow>
         map_of (related_assessment_statuses
           (snd (set_related_assessment_status assessment_name status now r))) m =
         map_of (related_assessment_statuses r) m) \<and>
      dict_keys (related_assessment_statuses
        (snd (set_related_assessment_status assessment_name status now r))) =
        (if assessment_name \<in> set (dict_keys (related_assessment_statuses r))
         then dict_keys (related_assessment_statuses r)
         else dict_keys (related_assessment_statuses r) @ [assessment_name])) \<and>
   RELATED_STATUSES = [''Not Started'', ''In Progress'', ''Completed'', ''N/A'']"
  by (simp add: set_related_assessment_status_def Let_def map_of_dict_set dict_keys_dict_set
      RELATED_STATUSES_def)

theorem set_related_assessment_status_checked_witness:
  "set_related_assessment_status ''Ethics Review'' ''Done'' ''2025-02-01T12:00:00'' dept_x_record =
     (Inl (ValueError
        (''Invalid status for '' @ ''Ethics Review'' @
         ''. Must be one of: ['Not Started', 'In Progress', 'Completed', 'N/A']'')),
      dept_x_record) \<and>
   dict_keys (related_assessment_statuses (snd (set_related_assessment_status ''Ethics Review''
     ''In Progress'' ''2025-02-01T12:00:00'' dept_x_record))) =
     [''PIA'', ''Security Assessment'', ''Human Rights Assessment'', ''Ethics Review''] \<and>
   map_of (related_assessment_statuses (snd (set_related_assessment_status ''Ethics Review''
     ''In Progress'' ''2025-02-01T12:00:00'' dept_x_record))) ''Ethics Review'' =
     Some ''In Progress''"
proof -
  have bad: "''Done'' \<notin> set RELATED_STATUSES" and good: "''In Progress'' \<in> set RELATED_STATUSES"
    by (simp_all add: RELATED_STATUSES_def)
  have keys: "dict_keys (related_assessment_statuses dept_x_record) =
      [''PIA'', ''Security Assessment'', ''Human Rights Assessment'']"
    by (simp add: dept_x_record_def init_def dict_keys_def)
  from set_related_assessment_status_checked
    [of "''Done''" "''Ethics Review''" "''2025-02-01T12:00:00''" dept_x_record] bad
  have w1: "set_related_assessment_status ''Ethics Review'' ''Done'' ''2025-02-01T12:00:00''
      dept_x_record =
     (Inl (ValueError
        (''Invalid status for '' @ ''Ethics Review'' @
         ''. Must be one of: ['Not Started', 'In Progress', 'Completed', 'N/A']'')),
      dept_x_record)"
    by blast
  let ?r = "snd (set_related_assessment_status ''Ethics Review'' ''In Progress''
     ''2025-02-01T12:00:00'' dept_x_record)"
  from set_related_assessment_status_checked
    [of "''In Progress''" "''Ethics Review''" "''2025-02-01T12:00:00''" dept_x_record] good
  have k: "dict_keys (related_assessment_statuses ?r) =
        (if ''Ethics Review'' \<in> set (dict_keys (related_assessment_statuses dept_x_record))
         then dict_keys (related_assessment_statuses dept_x_record)
         else dict_keys (related_assessment_statuses dept_x_record) @ [''Ethics Review''])"
    and w3: "map_of (related_assessment_statuses ?r) ''Ethics Review'' = Some ''In Progress''"
    by blast+
  from k keys have w2: "dict_keys (related_assessment_statuses ?r) =
     [''PIA'', ''Security Assessment'', ''Human Rights Assessment'', ''Ethics Review'']"
    by simp
  from w1 w2 w3 show ?thesis by blast
qed

subsection \<open>Empty strings in the system details\<close>

text \<open>
  C10. \<open>set_system_details\<close> leaves \<open>system_name\<close>, \<open>agency_name\<close> and
  \<open>system_purpose\<close> as they are when the parameter is left out or is the empty string,
  and stores any string that is not empty; so none of the three, once not empty, is
  empty after a call.
\<close>

theorem set_system_details_empty_string:
  "(system_name_arg = Omitted \<or> system_name_arg = Given '''' \<longrightarrow>
      system_name (set_system_details system_name_arg agency_name_arg purpose_arg t d c pr ra now r) =
        system_name r) \<and>
   (\<forall>s. system_name_arg = Given s \<and> s \<noteq> '''' \<longrightarrow>
      system_name (set_system_details system_name_arg agency_name_arg purpose_arg t d c pr ra now r) = s) \<and>
   (agency_name_arg = Omitted \<or> agency_name_arg = Given '''' \<longrightarrow>
      agency_name (set_system_details system_name_arg agency_name_arg purpose_arg t d c pr ra now r) =
        agency_name r) \<and>
   (\<forall>s. agency_name_arg = Given s \<and> s \<noteq> '''' \<longrightarrow>
      agency_name (set_system_details system_name_arg agency_name_arg purpose_arg t d c pr ra now r) = s) \<and>
   (purpose_arg = Omitted \<or> purpose_arg = Given '''' \<longrightarrow>
      system_purpose (set_system_details system_name_arg agency_name_arg purpose_arg t d c pr ra now r) =
        system_purpose r) \<and>
   (\<forall>s. purpose_arg = Given s \<and> s \<noteq> '''' \<longrightarrow>
      system_purpose (set_system_details system_name_arg agency_name_arg purpose_arg t d c pr ra now r) = s) \<and>
   (system_name r \<noteq> '''' \<longrightarrow>
      system_name (set_system_details system_name_arg agency_name_arg purpose_arg t d c pr ra now r) \<noteq> '''') \<and>
   (agency_name r \<noteq> '''' \<longrightarrow>
      agency_name (set_system_details system_name_arg agency_name_arg purpose_arg t d c pr ra now r) \<noteq> '''') \<and>
   (system_purpose r \<noteq> '''' \<longrightarrow>
      system_purpose (set_system_details system_name_arg agency_name_arg purpose_arg t d c pr ra now r) \<noteq> '''')"
  by (cases system_name_arg; cases agency_name_arg; cases purpose_arg)
    (simp_all add: set_system_details_def Let_def split: option.splits)

theorem set_system_details_empty_string_witness:
  "system_name (set_system_details (Given '''') (Given '''') (Given '''') Omitted Omitted Omitted
     Omitted Omitted ''2025-02-01T12:00:00'' dept_x_record) = ''Benefits Triage'' \<and>
   agency_name (set_system_details (Given '''') (Given '''') (Given '''') Omitted Omitted Omitted
     Omitted Omitted ''2025-02-01T12:00:00'' dept_x_record) = ''Dept X'' \<and>
   system_name (set_system_details (Given ''Claims Triage'') Omitted (Given ''Sorts claims'')
     Omitted Omitted Omitted Omitted Omitted ''2025-02-01T12:00:00'' dept_x_record) =
     ''Claims Triage'' \<and>
   system_purpose (set_system_details (Given ''Claims Triage'') Omitted (Given ''Sorts claims'')
     Omitted Omitted Omitted Omitted Omitted ''2025-02-01T12:00:00'' dept_x_record) =
     ''Sorts claims''"
proof -
  have before: "system_name dept_x_record = ''Benefits Triage''" "agency_name dept_x_record = ''Dept X''"
    by (simp_all add: dept_x_record_def init_def)
  note empty = set_system_details_empty_string
    [of "Given ''''" "Given ''''" "Given ''''" Omitted Omitted Omitted Omitted Omitted
      "''2025-02-01T12:00:00''" dept_x_record]
  note full = set_system_details_empty_string
    [of "Given ''Claims Triage''" Omitted "Given ''Sorts claims''" Omitted Omitted Omitted Omitted
      Omitted "''2025-02-01T12:00:00''" dept_x_record]
  from empty before have w1: "system_name (set_system_details (Given '''') (Given '''') (Given '''')
      Omitted Omitted Omitted Omitted Omitted ''2025-02-01T12:00:00'' dept_x_record) =
      ''Benefits Triage''"
    and w2: "agency_name (set_system_details (Given '''') (Given '''') (Given '''')
      Omitted Omitted Omitted Omitted Omitted ''2025-02-01T12:00:00'' dept_x_record) = ''Dept X''"
    by simp_all
  have ne: "''Claims Triage'' \<noteq> ''''" "''Sorts claims'' \<noteq> ''''" by simp_all
  from full ne have w3: "system_name (set_system_details (Given ''Claims Triage'') Omitted
      (Given ''Sorts claims'') Omitted Omitted Omitted Omitted Omitted ''2025-02-01T12:00:00''
      dept_x_record) = ''Claims Triage''"
    and w4: "system_purpose (set_system_details (Given ''Claims Triage'') Omitted
      (Given ''Sorts claims'') Omitted Omitted Omitted Omitted Omitted ''2025-02-01T12:00:00''
      dept_x_record) = ''Sorts claims''"
    by blast+
  from w1 w2 w3 w4 show ?thesis by blast
qed

subsection \<open>The mitigation plan\<close>








subsection \<open>The life of a mitigation item\<close>








subsection \<open>The partial-update setters\<close>

text \<open>
  C4. The partial-update setters are to overwrite only the fields that are supplied.
  \<open>set_links\<close> and \<open>set_monitoring\<close> do not do so: each of their assignments is guarded
  by \<open>is not None\<close>, but their parameters default to the empty string and not to
  \<open>None\<close>, so a parameter that is left out is stored as the empty string. On a record
  whose transparency link is set, \<open>set_links\<close> with the inventory reference alone
  empties the link, where \<open>None\<close> passed for the link keeps it. On a record whose
  monitoring details are set, \<open>set_monitoring\<close> with the frequency alone empties the
  plan reference and the next review date, where \<open>None\<close> passed for them keeps them.
\<close>

theorem set_links_omitted_overwrites:
  "ai_inventory_ref linked_record = ''DOI-AI-001'' \<and>
   transparency_statement_link linked_record = ''https://agency.example/transparency'' \<and>
   ai_inventory_ref
     (set_links (Given (Some ''DOI-AI-002'')) Omitted ''2025-01-08T10:00:00'' linked_record) =
     ''DOI-AI-002'' \<and>
   transparency_statement_link
     (set_links (Given (Some ''DOI-AI-002'')) Omitted ''2025-01-08T10:00:00'' linked_record) = '''' \<and>
   transparency_statement_link
     (set_links (Given (Some ''DOI-AI-002'')) (Given None) ''2025-01-08T10:00:00'' linked_record) =
     ''https://agency.example/transparency'' \<and>
   monitoring_plan_ref monitored_record = ''Internal Monitoring SOP'' \<and>
   review_frequency monitored_record = ''Annually'' \<and>
   next_review_date monitored_record = ''2025-10-20'' \<and>
   review_frequency
     (set_monitoring Omitted (Given (Some ''Monthly'')) Omitted ''2025-01-08T10:00:00''
        monitored_record) = ''Monthly'' \<and>
   monitoring_plan_ref
     (set_monitoring Omitted (Given (Some ''Monthly'')) Omitted ''2025-01-08T10:00:00''
        monitored_record) = '''' \<and>
   next_review_date
     (set_monitoring Omitted (Given (Some ''Monthly'')) Omitted ''2025-01-08T10:00:00''
        monitored_record) = '''' \<and>
   monitoring_plan_ref
     (set_monitoring (Given None) (Given (Some ''Monthly'')) (Given None) ''2025-01-08T10:00:00''
        monitored_record) = ''Internal Monitoring SOP'' \<and>
   next_review_date
     (set_monitoring (Given None) (Given (Some ''Monthly'')) (Given None) ''2025-01-08T10:00:00''
        monitored_record) = ''2025-10-20''"
  by (simp add: linked_record_def monitored_record_def set_links_def set_monitoring_def)

subsection \<open>Permissions\<close>

text \<open>
  C6. \<open>has_permission\<close> holds exactly when the token is in the list that
  \<open>ROLE_PERMISSIONS\<close> gives for the user's role. The table has the four roles admin,
  reviewer, assessor and viewer; for any other role every token is refused. A viewer
  has no \<open>EDIT_AIA\<close>, and an admin has each of the ten tokens of \<open>Permissions\<close>.
\<close>

theorem has_permission_lookup:
  "(has_permission u p \<longleftrightarrow> (\<exists>ps. map_of ROLE_PERMISSIONS (role u) = Some ps \<and> p \<in> set ps)) \<and>
   dict_keys ROLE_PERMISSIONS = [''admin'', ''reviewer'', ''assessor'', ''viewer''] \<and>
   (role u \<notin> set [''admin'', ''reviewer'', ''assessor'', ''viewer''] \<longrightarrow> \<not> has_permission u p) \<and>
   (role u = ''viewer'' \<longrightarrow> \<not> has_permission u EDIT_AIA) \<and>
   (role u = ''admin'' \<longrightarrow> (\<forall>q \<in> set PERMISSIONS. has_permission u q)) \<and>
   length PERMISSIONS = 10 \<and> distinct PERMISSIONS"
  apply (intro conjI)
  subgoal by (simp add: has_permission_def split: option.splits)
  subgoal by (simp add: dict_keys_def ROLE_PERMISSIONS_def)
  subgoal by (simp add: has_permission_def ROLE_PERMISSIONS_def)
  subgoal
    by (simp add: has_permission_def ROLE_PERMISSIONS_def EDIT_AIA_def VIEW_DASHBOARD_def
        VIEW_REGISTER_def VIEW_AIA_def EXPORT_AIA_def)
  subgoal by (simp add: has_permission_def ROLE_PERMISSIONS_def PERMISSIONS_def)
  subgoal by (simp add: PERMISSIONS_def)
  subgoal
    by (simp add: PERMISSIONS_def EDIT_AIA_def VIEW_DASHBOARD_def VIEW_REGISTER_def
        VIEW_AIA_def EXPORT_AIA_def ADD_SYSTEM_def DELETE_SYSTEM_def CHANGE_STATUS_def
        APPROVE_AIA_def MANAGE_USERS_def)
  done

theorem has_permission_lookup_witness:
  "\<not> has_permission
       \<lparr>email = ''v@example.com'', name = ''V'', role = ''viewer'', agency = ''Dept X'',
        created_at = ''2025-01-01T09:00:00'', last_login = None\<rparr> EDIT_AIA \<and>
   has_permission
       \<lparr>email = ''admin@example.com'', name = ''Default Admin'', role = ''admin'',
        agency = ''System'', created_at = ''2025-01-01T09:00:00'', last_login = None\<rparr>
       MANAGE_USERS \<and>
   \<not> has_permission
       \<lparr>email = ''a@example.com'', name = ''A'', role = ''auditor'', agency = ''Dept X'',
        created_at = ''2025-01-01T09:00:00'', last_login = None\<rparr> VIEW_AIA"
proof -
  let ?v = "\<lparr>email = ''v@example.com'', name = ''V'', role = ''viewer'', agency = ''Dept X'',
        created_at = ''2025-01-01T09:00:00'', last_login = None\<rparr>"
  let ?a = "\<lparr>email = ''admin@example.com'', name = ''Default Admin'', role = ''admin'',
        agency = ''System'', created_at = ''2025-01-01T09:00:00'', last_login = None\<rparr>"
  let ?x = "\<lparr>email = ''a@example.com'', name = ''A'', role = ''auditor'', agency = ''Dept X'',
        created_at = ''2025-01-01T09:00:00'', last_login = None\<rparr>"
  have "role ?v = ''viewer''" by simp
  with has_permission_lookup [of ?v EDIT_AIA] have v: "\<not> has_permission ?v EDIT_AIA"
    by blast
  have "role ?a = ''admin''" and "MANAGE_USERS \<in> set PERMISSIONS"
    by (simp_all add: PERMISSIONS_def)
  with has_permission_lookup [of ?a MANAGE_USERS] have a: "has_permission ?a MANAGE_USERS"
    by blast
  have "role ?x \<notin> set [''admin'', ''reviewer'', ''assessor'', ''viewer'']" by simp
  with has_permission_lookup [of ?x VIEW_AIA] have x: "\<not> has_permission ?x VIEW_AIA"
    by blast
  from v a x show ?thesis by blast
qed

end
